theory Spec2Isabelle
  imports Complex_Main "HOL-Library.Sublist" "HOL-Library.Multiset"
begin

section \<open>Python strings\<close>

text \<open>
  A Python \<open>str\<close> is a sequence of Unicode code points; it is modelled as the list of
  these integers, as \<open>ord\<close> gives them. \<open>cp\<close> gives the code point of a character
  written in the theory, and \<open>py\<close> the Python string of a string literal of the theory
  (which can only hold code points below 256).
\<close>

type_synonym pystr = "int list"

definition cp :: "char \<Rightarrow> int" where
  "cp c = of_char c"

definition py :: "string \<Rightarrow> pystr" where
  "py s = map cp s"

text \<open>
  The character tables of the interpreter (CPython 3.11, Unicode 14.0.0):
  the code points for which \<open>str.isspace()\<close> holds, which are those \<open>strip()\<close> and
  \<open>split()\<close> treat as whitespace; the ranges of the code points the pattern class \<open>\d\<close>
  matches in a \<open>str\<close> pattern; and \<open>str.upper()\<close> for the code points from 128 on, as
  the code points whose upper case is a string of several code points, and the ranges
  \<open>(lo, hi, step, target)\<close> in which \<open>lo + i * step\<close> has the upper case
  \<open>target + i * step\<close>.
\<close>

definition whitespace_codes :: "int list" where
  "whitespace_codes =
    [9, 10, 11, 12, 13, 28, 29, 30, 31, 32, 133, 160, 5760, 8192, 8193, 8194, 8195, 8196, 8197,
     8198, 8199, 8200, 8201, 8202, 8232, 8233, 8239, 8287, 12288]"

definition digit_ranges :: "(int \<times> int) list" where
  "digit_ranges =
    [(48, 57), (1632, 1641), (1776, 1785), (1984, 1993), (2406, 2415), (2534, 2543),
     (2662, 2671), (2790, 2799), (2918, 2927), (3046, 3055), (3174, 3183), (3302, 3311),
     (3430, 3439), (3558, 3567), (3664, 3673), (3792, 3801), (3872, 3881), (4160, 4169),
     (4240, 4249), (6112, 6121), (6160, 6169), (6470, 6479), (6608, 6617), (6784, 6793),
     (6800, 6809), (6992, 7001), (7088, 7097), (7232, 7241), (7248, 7257), (42528, 42537),
     (43216, 43225), (43264, 43273), (43472, 43481), (43504, 43513), (43600, 43609),
     (44016, 44025), (65296, 65305), (66720, 66729), (68912, 68921), (69734, 69743),
     (69872, 69881), (69942, 69951), (70096, 70105), (70384, 70393), (70736, 70745),
     (70864, 70873), (71248, 71257), (71360, 71369), (71472, 71481), (71904, 71913),
     (72016, 72025), (72784, 72793), (73040, 73049), (73120, 73129), (92768, 92777),
     (92864, 92873), (93008, 93017), (120782, 120831), (123200, 123209), (123632, 123641),
     (125264, 125273), (130032, 130041)]"

definition upper_special :: "(int \<times> int list) list" where
  "upper_special =
    [(223, [83, 83]), (329, [700, 78]), (496, [74, 780]), (912, [921, 776, 769]),
     (944, [933, 776, 769]), (1415, [1333, 1362]), (7830, [72, 817]), (7831, [84, 776]),
     (7832, [87, 778]), (7833, [89, 778]), (7834, [65, 702]), (8016, [933, 787]),
     (8018, [933, 787, 768]), (8020, [933, 787, 769]), (8022, [933, 787, 834]),
     (8064, [7944, 921]), (8065, [7945, 921]), (8066, [7946, 921]), (8067, [7947, 921]),
     (8068, [7948, 921]), (8069, [7949, 921]), (8070, [7950, 921]), (8071, [7951, 921]),
     (8072, [7944, 921]), (8073, [7945, 921]), (8074, [7946, 921]), (8075, [7947, 921]),
     (8076, [7948, 921]), (8077, [7949, 921]), (8078, [7950, 921]), (8079, [7951, 921]),
     (8080, [7976, 921]), (8081, [7977, 921]), (8082, [7978, 921]), (8083, [7979, 921]),
     (8084, [7980, 921]), (8085, [7981, 921]), (8086, [7982, 921]), (8087, [7983, 921]),
     (8088, [7976, 921]), (8089, [7977, 921]), (8090, [7978, 921]), (8091, [7979, 921]),
     (8092, [7980, 921]), (8093, [7981, 921]), (8094, [7982, 921]), (8095, [7983, 921]),
     (8096, [8040, 921]), (8097, [8041, 921]), (8098, [8042, 921]), (8099, [8043, 921]),
     (8100, [8044, 921]), (8101, [8045, 921]), (8102, [8046, 921]), (8103, [8047, 921]),
     (8104, [8040, 921]), (8105, [8041, 921]), (8106, [8042, 921]), (8107, [8043, 921]),
     (8108, [8044, 921]), (8109, [8045, 921]), (8110, [8046, 921]), (8111, [8047, 921]),
     (8114, [8122, 921]), (8115, [913, 921]), (8116, [902, 921]), (8118, [913, 834]),
     (8119, [913, 834, 921]), (8124, [913, 921]), (8130, [8138, 921]), (8131, [919, 921]),
     (8132, [905, 921]), (8134, [919, 834]), (8135, [919, 834, 921]), (8140, [919, 921]),
     (8146, [921, 776, 768]), (8147, [921, 776, 769]), (8150, [921, 834]),
     (8151, [921, 776, 834]), (8162, [933, 776, 768]), (8163, [933, 776, 769]),
     (8164, [929, 787]), (8166, [933, 834]), (8167, [933, 776, 834]), (8178, [8186, 921]),
     (8179, [937, 921]), (8180, [911, 921]), (8182, [937, 834]), (8183, [937, 834, 921]),
     (8188, [937, 921]), (64256, [70, 70]), (64257, [70, 73]), (64258, [70, 76]),
     (64259, [70, 70, 73]), (64260, [70, 70, 76]), (64261, [83, 84]), (64262, [83, 84]),
     (64275, [1348, 1350]), (64276, [1348, 1333]), (64277, [1348, 1339]),
     (64278, [1358, 1350]), (64279, [1348, 1341])]"

definition upper_ranges :: "(int \<times> int \<times> int \<times> int) list" where
  "upper_ranges =
    [(181, 181, 1, 924), (224, 246, 1, 192), (248, 254, 1, 216), (255, 255, 1, 376),
     (257, 303, 2, 256), (305, 305, 1, 73), (307, 311, 2, 306), (314, 328, 2, 313),
     (331, 375, 2, 330), (378, 382, 2, 377), (383, 383, 1, 83), (384, 384, 1, 579),
     (387, 389, 2, 386), (392, 392, 1, 391), (396, 396, 1, 395), (402, 402, 1, 401),
     (405, 405, 1, 502), (409, 409, 1, 408), (410, 410, 1, 573), (414, 414, 1, 544),
     (417, 421, 2, 416), (424, 424, 1, 423), (429, 429, 1, 428), (432, 432, 1, 431),
     (436, 438, 2, 435), (441, 441, 1, 440), (445, 445, 1, 444), (447, 447, 1, 503),
     (453, 453, 1, 452), (454, 454, 1, 452), (456, 456, 1, 455), (457, 457, 1, 455),
     (459, 459, 1, 458), (460, 460, 1, 458), (462, 476, 2, 461), (477, 477, 1, 398),
     (479, 495, 2, 478), (498, 498, 1, 497), (499, 499, 1, 497), (501, 501, 1, 500),
     (505, 543, 2, 504), (547, 563, 2, 546), (572, 572, 1, 571), (575, 576, 1, 11390),
     (578, 578, 1, 577), (583, 591, 2, 582), (592, 592, 1, 11375), (593, 593, 1, 11373),
     (594, 594, 1, 11376), (595, 595, 1, 385), (596, 596, 1, 390), (598, 599, 1, 393),
     (601, 601, 1, 399), (603, 603, 1, 400), (604, 604, 1, 42923), (608, 608, 1, 403),
     (609, 609, 1, 42924), (611, 611, 1, 404), (613, 613, 1, 42893), (614, 614, 1, 42922),
     (616, 616, 1, 407), (617, 617, 1, 406), (618, 618, 1, 42926), (619, 619, 1, 11362),
     (620, 620, 1, 42925), (623, 623, 1, 412), (625, 625, 1, 11374), (626, 626, 1, 413),
     (629, 629, 1, 415), (637, 637, 1, 11364), (640, 640, 1, 422), (642, 642, 1, 42949),
     (643, 643, 1, 425), (647, 647, 1, 42929), (648, 648, 1, 430), (649, 649, 1, 580),
     (650, 651, 1, 433), (652, 652, 1, 581), (658, 658, 1, 439), (669, 669, 1, 42930),
     (670, 670, 1, 42928), (837, 837, 1, 921), (881, 883, 2, 880), (887, 887, 1, 886),
     (891, 893, 1, 1021), (940, 940, 1, 902), (941, 943, 1, 904), (945, 961, 1, 913),
     (962, 962, 1, 931), (963, 971, 1, 931), (972, 972, 1, 908), (973, 974, 1, 910),
     (976, 976, 1, 914), (977, 977, 1, 920), (981, 981, 1, 934), (982, 982, 1, 928),
     (983, 983, 1, 975), (985, 1007, 2, 984), (1008, 1008, 1, 922), (1009, 1009, 1, 929),
     (1010, 1010, 1, 1017), (1011, 1011, 1, 895), (1013, 1013, 1, 917), (1016, 1016, 1, 1015),
     (1019, 1019, 1, 1018), (1072, 1103, 1, 1040), (1104, 1119, 1, 1024),
     (1121, 1153, 2, 1120), (1163, 1215, 2, 1162), (1218, 1230, 2, 1217),
     (1231, 1231, 1, 1216), (1233, 1327, 2, 1232), (1377, 1414, 1, 1329),
     (4304, 4346, 1, 7312), (4349, 4351, 1, 7357), (5112, 5117, 1, 5104),
     (7296, 7296, 1, 1042), (7297, 7297, 1, 1044), (7298, 7298, 1, 1054),
     (7299, 7300, 1, 1057), (7301, 7301, 1, 1058), (7302, 7302, 1, 1066),
     (7303, 7303, 1, 1122), (7304, 7304, 1, 42570), (7545, 7545, 1, 42877),
     (7549, 7549, 1, 11363), (7566, 7566, 1, 42950), (7681, 7829, 2, 7680),
     (7835, 7835, 1, 7776), (7841, 7935, 2, 7840), (7936, 7943, 1, 7944),
     (7952, 7957, 1, 7960), (7968, 7975, 1, 7976), (7984, 7991, 1, 7992),
     (8000, 8005, 1, 8008), (8017, 8023, 2, 8025), (8032, 8039, 1, 8040),
     (8048, 8049, 1, 8122), (8050, 8053, 1, 8136), (8054, 8055, 1, 8154),
     (8056, 8057, 1, 8184), (8058, 8059, 1, 8170), (8060, 8061, 1, 8186),
     (8112, 8113, 1, 8120), (8126, 8126, 1, 921), (8144, 8145, 1, 8152), (8160, 8161, 1, 8168),
     (8165, 8165, 1, 8172), (8526, 8526, 1, 8498), (8560, 8575, 1, 8544),
     (8580, 8580, 1, 8579), (9424, 9449, 1, 9398), (11312, 11359, 1, 11264),
     (11361, 11361, 1, 11360), (11365, 11365, 1, 570), (11366, 11366, 1, 574),
     (11368, 11372, 2, 11367), (11379, 11379, 1, 11378), (11382, 11382, 1, 11381),
     (11393, 11491, 2, 11392), (11500, 11502, 2, 11499), (11507, 11507, 1, 11506),
     (11520, 11557, 1, 4256), (11559, 11559, 1, 4295), (11565, 11565, 1, 4301),
     (42561, 42605, 2, 42560), (42625, 42651, 2, 42624), (42787, 42799, 2, 42786),
     (42803, 42863, 2, 42802), (42874, 42876, 2, 42873), (42879, 42887, 2, 42878),
     (42892, 42892, 1, 42891), (42897, 42899, 2, 42896), (42900, 42900, 1, 42948),
     (42903, 42921, 2, 42902), (42933, 42947, 2, 42932), (42952, 42954, 2, 42951),
     (42961, 42961, 1, 42960), (42967, 42969, 2, 42966), (42998, 42998, 1, 42997),
     (43859, 43859, 1, 42931), (43888, 43967, 1, 5024), (65345, 65370, 1, 65313),
     (66600, 66639, 1, 66560), (66776, 66811, 1, 66736), (66967, 67003, 2, 66928),
     (66968, 66976, 2, 66929), (66980, 66992, 2, 66941), (66996, 67000, 2, 66957),
     (67004, 67004, 1, 66965), (68800, 68850, 1, 68736), (71872, 71903, 1, 71840),
     (93792, 93823, 1, 93760), (125218, 125251, 1, 125184)]"

definition isspace :: "int \<Rightarrow> bool" where
  "isspace c = (c \<in> set whitespace_codes)"

definition isdigit :: "int \<Rightarrow> bool" where
  "isdigit c = list_ex (\<lambda>(lo, hi). lo \<le> c \<and> c \<le> hi) digit_ranges"

text \<open>
  \<open>str.upper()\<close> works code point by code point: below 128 only the letters \<open>a\<close> to \<open>z\<close>
  change; from 128 on the tables decide, and a code point in neither table is kept.
\<close>

definition upper_char :: "int \<Rightarrow> pystr" where
  "upper_char c =
     (if c < 128 then [if 97 \<le> c \<and> c \<le> 122 then c - 32 else c]
      else
        (case map_of upper_special c of
           Some u \<Rightarrow> u
         | None \<Rightarrow>
             (case find (\<lambda>(lo, hi, step, target). lo \<le> c \<and> c \<le> hi \<and> (c - lo) mod step = 0)
                     upper_ranges of
                Some (lo, hi, step, target) \<Rightarrow> [target + (c - lo)]
              | None \<Rightarrow> [c])))"

definition upper :: "pystr \<Rightarrow> pystr" where
  "upper s = concat (map upper_char s)"

text \<open>\<open>str.lstrip()\<close>, \<open>str.rstrip()\<close> and \<open>str.strip()\<close> without argument.\<close>

definition lstrip :: "pystr \<Rightarrow> pystr" where
  "lstrip s = dropWhile isspace s"

definition rstrip :: "pystr \<Rightarrow> pystr" where
  "rstrip s = rev (dropWhile isspace (rev s))"

definition strip :: "pystr \<Rightarrow> pystr" where
  "strip s = rstrip (lstrip s)"

text \<open>\<open>str.rstrip(chars)\<close>: drop every trailing code point that occurs in \<open>chars\<close>.\<close>

definition rstrip_chars :: "pystr \<Rightarrow> pystr \<Rightarrow> pystr" where
  "rstrip_chars chars s = rev (dropWhile (\<lambda>c. c \<in> set chars) (rev s))"

text \<open>
  \<open>str.split()\<close> without argument: the maximal runs of non-whitespace code points, in
  order. The first argument of \<open>split_aux\<close> is the word read so far.
\<close>

fun split_aux :: "pystr \<Rightarrow> pystr \<Rightarrow> pystr list" where
  "split_aux cur [] = (if cur = [] then [] else [cur])"
| "split_aux cur (c # s) =
     (if isspace c then (if cur = [] then split_aux [] s else cur # split_aux [] s)
      else split_aux (cur @ [c]) s)"

definition split_ws :: "pystr \<Rightarrow> pystr list" where
  "split_ws s = split_aux [] s"

text \<open>\<open>" ".join(words)\<close>.\<close>

fun join_sp :: "pystr list \<Rightarrow> pystr" where
  "join_sp [] = []"
| "join_sp [w] = w"
| "join_sp (w # v # ws) = w @ py '' '' @ join_sp (v # ws)"

section \<open>Errors\<close>

text \<open>
  \<open>InvalidColumnType\<close> is the \<open>ValueError("Invalid column_type!")\<close> raised by the type
  translator; \<open>MySQLError\<close> is a \<open>mysql.connector.Error\<close> raised by the destination;
  \<open>SQLiteError\<close> is a \<open>sqlite3.Error\<close> raised by a query on the source;
  \<open>OverflowError\<close> is raised by the source cursor's \<open>fetchmany\<close> when its size does not fit
  a C \<open>int\<close>, and by the division of two integers whose quotient is beyond the doubles.
\<close>

datatype error = InvalidColumnType | MySQLError | SQLiteError | OverflowError

section \<open>The type translator\<close>

text \<open>
  \<open>COLUMN_PATTERN = re.compile(r"^[^(]+")\<close> applied with \<open>match\<close>: the longest prefix
  without an opening parenthesis, which has to be non-empty. The result is
  \<open>match.group(0)\<close>, or \<open>None\<close> when there is no match.
\<close>

definition COLUMN_PATTERN_match :: "pystr \<Rightarrow> pystr option" where
  "COLUMN_PATTERN_match s =
     (let m = takeWhile (\<lambda>c. c \<noteq> cp CHR ''('') s in if m = [] then None else Some m)"

definition valid_column_type :: "pystr \<Rightarrow> pystr option" where
  "valid_column_type column_type = COLUMN_PATTERN_match (strip column_type)"

text \<open>
  \<open>re.search(r"\(\d+\)$", column_type)\<close>. \<open>suffix_match_here\<close> tries the pattern at the
  start of its argument: an opening parenthesis, a non-empty greedy run of digits, a
  closing parenthesis, and then \<open>$\<close>, which in Python holds at the end of the string and
  also just before a line feed that ends the string. \<open>suffix_search\<close> tries every start
  position from the left, as \<open>search\<close> does, and returns \<open>group(0)\<close>.
\<close>

definition suffix_match_here :: "pystr \<Rightarrow> pystr option" where
  "suffix_match_here s =
     (case s of
        [] \<Rightarrow> None
      | c # r \<Rightarrow>
          if c = cp CHR ''('' then
            (let ds = takeWhile isdigit r; rest = dropWhile isdigit r
             in if ds \<noteq> [] \<and> (rest = [cp CHR '')''] \<or> rest = [cp CHR '')'', 10])
                then Some ([cp CHR ''(''] @ ds @ [cp CHR '')'']) else None)
          else None)"

fun suffix_search :: "pystr \<Rightarrow> pystr option" where
  "suffix_search [] = None"
| "suffix_search (c # s) =
     (case suffix_match_here (c # s) of
        Some m \<Rightarrow> Some m
      | None \<Rightarrow> suffix_search s)"

text \<open>
  \<open>_column_type_length(column_type, default=None)\<close>. The default is an optional Python
  integer; \<open>elif default\<close> is false for \<open>None\<close> and for \<open>0\<close>. \<open>"({})".format(default)\<close>
  needs the decimal rendering of an integer.
\<close>

fun digits_of_nat :: "nat \<Rightarrow> pystr" where
  "digits_of_nat n =
     (if n < 10 then [48 + int n] else digits_of_nat (n div 10) @ [48 + int (n mod 10)])"

declare digits_of_nat.simps [simp del]

definition str_of_int :: "int \<Rightarrow> pystr" where
  "str_of_int i =
     (if i < 0 then py ''-'' @ digits_of_nat (nat (- i)) else digits_of_nat (nat i))"

definition column_type_length :: "pystr \<Rightarrow> int option \<Rightarrow> pystr" where
  "column_type_length column_type dflt =
     (case suffix_search column_type of
        Some m \<Rightarrow> m
      | None \<Rightarrow>
          (case dflt of
             None \<Rightarrow> []
           | Some d \<Rightarrow> if d \<noteq> 0 then py ''('' @ str_of_int d @ py '')'' else []))"

text \<open>\<open>_translate_type_from_sqlite_to_mysql(column_type)\<close>, branch by branch.\<close>

definition translate_type_from_sqlite_to_mysql :: "pystr \<Rightarrow> error + pystr" where
  "translate_type_from_sqlite_to_mysql column_type =
     (let full_column_type = upper column_type in
      case valid_column_type column_type of
        None \<Rightarrow> Inl InvalidColumnType
      | Some m \<Rightarrow>
          (let data_type = upper m in
           if data_type \<in> set [py ''TEXT'', py ''CLOB''] then Inr (py ''TEXT'')
           else if data_type \<in> set [py ''CHARACTER'', py ''NCHAR'', py ''NATIVE CHARACTER'']
             then Inr (py ''CHAR'' @ column_type_length column_type None)
           else if data_type \<in> set [py ''VARYING CHARACTER'', py ''NVARCHAR'', py ''VARCHAR'']
             then Inr (py ''VARCHAR'' @ column_type_length column_type (Some 255))
           else if data_type = py ''DOUBLE PRECISION'' then Inr (py ''DOUBLE'')
           else if data_type = py ''UNSIGNED BIG INT''
             then Inr (py ''BIGINT'' @ column_type_length column_type None @ py '' UNSIGNED'')
           else if data_type \<in> set [py ''INT1'', py ''INT2''] then Inr (py ''INT'')
           else Inr full_column_type))"

section \<open>Building the CREATE TABLE statement\<close>

text \<open>
  One row of \<open>PRAGMA table_info\<close>, with the four fields \<open>_create_table\<close> reads. SQLite
  reports \<open>notnull\<close> and \<open>pk\<close> as integers; Python tests them for truth, that is, for
  being different from \<open>0\<close>.
\<close>

record column =
  col_name :: pystr
  col_type :: pystr
  col_notnull :: int
  col_pk :: int

text \<open>
  The \<open>auto_increment=\<close> argument of the format call. The \<open>and\<close> is short-circuit: the
  type is translated again only for a column whose \<open>pk\<close> is true.
\<close>

definition auto_increment_arg :: "column \<Rightarrow> error + pystr" where
  "auto_increment_arg c =
     (if col_pk c \<noteq> 0 then
        (case translate_type_from_sqlite_to_mysql (col_type c) of
           Inl e \<Rightarrow> Inl e
         | Inr t \<Rightarrow>
             Inr (if t \<in> set [py ''INT'', py ''BIGINT''] then py ''AUTO_INCREMENT'' else []))
      else Inr [])"

text \<open>The text appended to \<open>sql\<close> for one column.\<close>

definition column_sql :: "column \<Rightarrow> error + pystr" where
  "column_sql c =
     (case translate_type_from_sqlite_to_mysql (col_type c) of
        Inl e \<Rightarrow> Inl e
      | Inr t \<Rightarrow>
          (case auto_increment_arg c of
             Inl e \<Rightarrow> Inl e
           | Inr ai \<Rightarrow>
               Inr (py '' `'' @ col_name c @ py ''` '' @ t @ py '' ''
                    @ (if col_notnull c \<noteq> 0 then py ''NOT NULL'' else py ''NULL'')
                    @ py '' '' @ ai @ py '', '')))"

text \<open>
  The loop over the columns, on the pair of the local variables \<open>sql\<close> and
  \<open>primary_key\<close>. The first column whose type does not translate ends it.
\<close>

fun create_table_loop :: "column list \<Rightarrow> pystr \<times> pystr \<Rightarrow> error + (pystr \<times> pystr)" where
  "create_table_loop [] acc = Inr acc"
| "create_table_loop (c # cs) (sql, primary_key) =
     (case column_sql c of
        Inl e \<Rightarrow> Inl e
      | Inr frag \<Rightarrow>
          create_table_loop cs
            (sql @ frag, if col_pk c \<noteq> 0 then col_name c else primary_key))"

text \<open>
  The statement \<open>_create_table\<close> sends: the loop, \<open>rstrip(", ")\<close>, the key clause when
  \<open>primary_key\<close> is a non-empty string, the table options, and the whitespace
  normalisation \<open>" ".join(sql.split())\<close>.
\<close>

definition create_table_sql :: "pystr \<Rightarrow> column list \<Rightarrow> error + pystr" where
  "create_table_sql table_name cols =
     (case create_table_loop cols
             (py ''CREATE TABLE IF NOT EXISTS `'' @ table_name @ py ''` ( '', []) of
        Inl e \<Rightarrow> Inl e
      | Inr (sql, primary_key) \<Rightarrow>
          (let sql1 = rstrip_chars (py '', '') sql;
               sql2 = (if primary_key \<noteq> []
                       then sql1 @ py '', PRIMARY KEY (`'' @ primary_key @ py ''`)''
                       else sql1);
               sql3 = sql2 @ py '' ) ENGINE = InnoDB CHARACTER SET utf8''
           in Inr (join_sp (split_ws sql3))))"

section \<open>The destination and the transfer pipeline\<close>

text \<open>
  The destination connection is seen through the calls made on it: \<open>execute\<close>,
  \<open>executemany\<close> with the rows it is given, and \<open>commit\<close>. Its state is the list of the
  calls that succeeded, in order. Whether a call succeeds is decided by the server; it is
  a parameter \<open>accepts\<close> of the model, which sees the calls made so far. A refused call
  raises \<open>mysql.connector.Error\<close> and leaves the list as it was.
\<close>

datatype 'r mysql_op = Execute pystr | ExecuteMany pystr "'r list" | Commit

type_synonym 'r mysql_log = "'r mysql_op list"

text \<open>A destination that accepts every call.\<close>

definition accept_all :: "'r mysql_log \<Rightarrow> 'r mysql_op \<Rightarrow> bool" where
  "accept_all dest op = True"

definition mysql_call ::
  "('r mysql_log \<Rightarrow> 'r mysql_op \<Rightarrow> bool) \<Rightarrow> 'r mysql_op \<Rightarrow> 'r mysql_log \<Rightarrow> error + 'r mysql_log" where
  "mysql_call accepts op dest = (if accepts dest op then Inr (dest @ [op]) else Inl MySQLError)"

text \<open>
  \<open>_create_table\<close>. \<open>info\<close> is the answer of the source to
  \<open>PRAGMA table_info("table_name")\<close>: the rows fetched, or the error raised. The result is
  the error raised, if any, and the destination as it is left.
\<close>

definition create_table ::
  "('r mysql_log \<Rightarrow> 'r mysql_op \<Rightarrow> bool) \<Rightarrow> pystr \<Rightarrow> error + column list \<Rightarrow> 'r mysql_log
     \<Rightarrow> error option \<times> 'r mysql_log" where
  "create_table accepts table_name info dest =
     (case info of
        Inl e \<Rightarrow> (Some e, dest)
      | Inr cols \<Rightarrow>
          (case create_table_sql table_name cols of
             Inl e \<Rightarrow> (Some e, dest)
           | Inr sql \<Rightarrow>
               (case mysql_call accepts (Execute sql) dest of
                  Inl e \<Rightarrow> (Some e, dest)
                | Inr log1 \<Rightarrow>
                    (case mysql_call accepts Commit log1 of
                       Inl e \<Rightarrow> (Some e, log1)
                     | Inr log2 \<Rightarrow> (None, log2)))))"

text \<open>
  \<open>total_records / self._chunk_size\<close> divides two Python integers: the result is the
  double nearest to the exact quotient, ties going to the even significand, and
  \<open>OverflowError\<close> when that is beyond the range of a double. Only the case the caller
  produces is modelled, a count \<open>n \<ge> 0\<close> divided by a size \<open>k > 0\<close>. A non-negative
  double is kept as a pair \<open>(m, e)\<close> that stands for \<open>m * 2 ^ e\<close>, where \<open>m\<close> has at most
  53 bits and \<open>e\<close> is at least \<open>-1074\<close>. \<open>bit_length\<close> is \<open>int.bit_length()\<close> of a
  non-negative integer; \<open>round_half_even a b\<close> is the integer nearest to \<open>a / b\<close>;
  \<open>quotient_exponent n k\<close> is the integer \<open>l\<close> with \<open>2 ^ l \<le> n / k < 2 ^ (l + 1)\<close>.
\<close>

function bit_length :: "int \<Rightarrow> nat" where
  "bit_length n = (if n \<le> 0 then 0 else Suc (bit_length (n div 2)))"
  by pat_completeness auto

termination bit_length
  by (relation "measure nat") auto

declare bit_length.simps [simp del]

definition round_half_even :: "int \<Rightarrow> int \<Rightarrow> int" where
  "round_half_even a b =
     (let q = a div b; r = a mod b
      in if 2 * r < b then q else if b < 2 * r then q + 1 else if even q then q else q + 1)"

definition quotient_exponent :: "int \<Rightarrow> int \<Rightarrow> int" where
  "quotient_exponent n k =
     (let d = int (bit_length n) - int (bit_length k)
      in if (if 0 \<le> d then k * 2 ^ nat d \<le> n else k \<le> n * 2 ^ nat (- d)) then d else d - 1)"

definition true_div :: "int \<Rightarrow> int \<Rightarrow> error + (int \<times> int)" where
  "true_div n k =
     (if n \<le> 0 then Inr (0, 0)
      else
        (let e = max (quotient_exponent n k - 52) (- 1074);
             m = (if 0 \<le> e then round_half_even n (k * 2 ^ nat e)
                  else round_half_even (n * 2 ^ nat (- e)) k)
         in if 0 \<le> e \<and> 2 ^ 1024 \<le> m * 2 ^ nat e then Inl OverflowError else Inr (m, e)))"

text \<open>\<open>math.ceil\<close> of a non-negative double, as a Python integer.\<close>

definition ceil_float :: "int \<times> int \<Rightarrow> int" where
  "ceil_float f =
     (case f of (m, e) \<Rightarrow>
        if 0 \<le> e then m * 2 ^ nat e else (m + 2 ^ nat (- e) - 1) div 2 ^ nat (- e))"

text \<open>
  \<open>ceil(total_records / self._chunk_size)\<close>, the number of iterations of the chunked
  loop, for a positive chunk size.
\<close>

definition loop_count :: "int \<Rightarrow> int \<Rightarrow> error + int" where
  "loop_count total_records chunk_size =
     (case true_div total_records chunk_size of
        Inl e \<Rightarrow> Inl e
      | Inr f \<Rightarrow> Inr (ceil_float f))"

text \<open>
  \<open>self._sqlite_cur.fetchmany(k)\<close> on the rows not fetched yet. The size \<open>k\<close> is
  converted to a C \<open>int\<close>, which raises \<open>OverflowError\<close> outside its range; a positive
  size takes up to \<open>k\<close> rows, any other size all of them. The result is the batch and the
  rows left.
\<close>

definition fetchmany :: "int \<Rightarrow> 'r list \<Rightarrow> error + ('r list \<times> 'r list)" where
  "fetchmany k cursor =
     (if 2 ^ 31 \<le> k \<or> k < - (2 ^ 31) then Inl OverflowError
      else if 0 < k then Inr (take (nat k) cursor, drop (nat k) cursor)
      else Inr (cursor, []))"

text \<open>
  The chunked loop of \<open>_transfer_table_data\<close>, for a given number of iterations.
  \<open>fetchmany\<close> is the outermost iterable of the generator expression, so it is called
  before \<open>executemany\<close> is.
\<close>

fun chunk_loop ::
  "nat \<Rightarrow> ('r mysql_log \<Rightarrow> 'r mysql_op \<Rightarrow> bool) \<Rightarrow> pystr \<Rightarrow> int \<Rightarrow> 'r list \<Rightarrow> 'r mysql_log
     \<Rightarrow> error option \<times> 'r list \<times> 'r mysql_log" where
  "chunk_loop 0 accepts sql k cursor dest = (None, cursor, dest)"
| "chunk_loop (Suc n) accepts sql k cursor dest =
     (case fetchmany k cursor of
        Inl e \<Rightarrow> (Some e, cursor, dest)
      | Inr (batch, cursor1) \<Rightarrow>
          (case mysql_call accepts (ExecuteMany sql batch) dest of
             Inl e \<Rightarrow> (Some e, cursor1, dest)
           | Inr log1 \<Rightarrow>
               (case mysql_call accepts Commit log1 of
                  Inl e \<Rightarrow> (Some e, cursor1, log1)
                | Inr log2 \<Rightarrow> chunk_loop n accepts sql k cursor1 log2)))"

text \<open>
  The unchunked branch: \<open>fetchall()\<close>, one \<open>executemany\<close>, one \<open>commit\<close>.
\<close>

definition transfer_all_at_once ::
  "('r mysql_log \<Rightarrow> 'r mysql_op \<Rightarrow> bool) \<Rightarrow> pystr \<Rightarrow> 'r list \<Rightarrow> 'r mysql_log
     \<Rightarrow> error option \<times> 'r list \<times> 'r mysql_log" where
  "transfer_all_at_once accepts sql cursor dest =
     (case mysql_call accepts (ExecuteMany sql cursor) dest of
        Inl e \<Rightarrow> (Some e, [], dest)
      | Inr log1 \<Rightarrow>
          (case mysql_call accepts Commit log1 of
             Inl e \<Rightarrow> (Some e, [], log1)
           | Inr log2 \<Rightarrow> (None, [], log2)))"

text \<open>
  \<open>_transfer_table_data(sql, total_records)\<close>. \<open>chunk_size\<close> is the attribute
  \<open>self._chunk_size\<close>: \<open>None\<close> or an integer. The result is the error raised, if any,
  the rows left in the source cursor and the destination.
\<close>

definition transfer_table_data ::
  "int option \<Rightarrow> ('r mysql_log \<Rightarrow> 'r mysql_op \<Rightarrow> bool) \<Rightarrow> pystr \<Rightarrow> int \<Rightarrow> 'r list \<Rightarrow> 'r mysql_log
     \<Rightarrow> error option \<times> 'r list \<times> 'r mysql_log" where
  "transfer_table_data chunk_size accepts sql total_records cursor dest =
     (case chunk_size of
        Some k \<Rightarrow>
          if 0 < k then
            (case loop_count total_records k of
               Inl e \<Rightarrow> (Some e, cursor, dest)
             | Inr n \<Rightarrow> chunk_loop (nat n) accepts sql k cursor dest)
          else transfer_all_at_once accepts sql cursor dest
      | None \<Rightarrow> transfer_all_at_once accepts sql cursor dest)"

text \<open>
  A source table, as the source cursor shows it to \<open>transfer\<close>: its name in
  \<open>sqlite_master\<close>, and the answers to the three queries made with that name, each the
  value fetched or the error raised: the rows of \<open>PRAGMA table_info\<close>, the number
  \<open>COUNT(*)\<close> gives, and for \<open>SELECT *\<close> the column names of the cursor's description
  with the rows, in the order they are yielded.
\<close>

record 'r table =
  tbl_name :: pystr
  tbl_info :: "error + column list"
  tbl_count :: "error + int"
  tbl_select :: "error + pystr list \<times> 'r list"

text \<open>
  \<open>template.format(*args)\<close> for a template whose only replacement fields are \<open>{}\<close>, with
  as many arguments as fields.
\<close>

fun format_seq :: "pystr \<Rightarrow> pystr list \<Rightarrow> pystr" where
  "format_seq [] args = []"
| "format_seq [c] args = [c]"
| "format_seq (c # d # s) args =
     (if c = cp (CHR 0x7B) \<and> d = cp (CHR 0x7D) then
        (case args of [] \<Rightarrow> format_seq s [] | a # as \<Rightarrow> a @ format_seq s as)
      else c # format_seq (d # s) args)"

definition insert_sql :: "pystr \<Rightarrow> pystr list \<Rightarrow> pystr" where
  "insert_sql table_name columns =
     py ''INSERT IGNORE INTO `'' @ table_name @ py ''` (''
     @ format_seq (rstrip_chars (py '' ,'')
                     (concat (replicate (length columns) (py ''`{}`, '')))) columns
     @ py '') VALUES (''
     @ rstrip_chars (py '' ,'') (concat (replicate (length columns) (py ''%s, '')))
     @ py '')''"

text \<open>The body of the loop of \<open>transfer\<close>, for one table.\<close>

definition transfer_table ::
  "int option \<Rightarrow> ('r mysql_log \<Rightarrow> 'r mysql_op \<Rightarrow> bool) \<Rightarrow> 'r table \<Rightarrow> 'r mysql_log
     \<Rightarrow> error option \<times> 'r mysql_log" where
  "transfer_table chunk_size accepts t dest =
     (case create_table accepts (tbl_name t) (tbl_info t) dest of
        (Some e, log1) \<Rightarrow> (Some e, log1)
      | (None, log1) \<Rightarrow>
          (case tbl_count t of
             Inl e \<Rightarrow> (Some e, log1)
           | Inr total_records \<Rightarrow>
               if 0 < total_records then
                 (case tbl_select t of
                    Inl e \<Rightarrow> (Some e, log1)
                  | Inr (columns, rows) \<Rightarrow>
                      (case transfer_table_data chunk_size accepts
                              (insert_sql (tbl_name t) columns) total_records rows log1 of
                         (err, cursor, log2) \<Rightarrow> (err, log2)))
               else (None, log1)))"

text \<open>
  \<open>transfer\<close>: the tables of \<open>sqlite_master\<close> whose name is not like \<open>sqlite_%\<close>, in
  catalogue order; the first error ends the run.
\<close>

fun transfer ::
  "int option \<Rightarrow> ('r mysql_log \<Rightarrow> 'r mysql_op \<Rightarrow> bool) \<Rightarrow> 'r table list \<Rightarrow> 'r mysql_log
     \<Rightarrow> error option \<times> 'r mysql_log" where
  "transfer chunk_size accepts [] dest = (None, dest)"
| "transfer chunk_size accepts (t # ts) dest =
     (case transfer_table chunk_size accepts t dest of
        (Some e, log1) \<Rightarrow> (Some e, log1)
      | (None, log1) \<Rightarrow> transfer chunk_size accepts ts log1)"

text \<open>
  The first \<open>n\<close> slices of length \<open>k\<close> of a list of rows, and the calls the chunked loop
  makes on the destination for a list of batches.
\<close>

fun fetched_batches :: "nat \<Rightarrow> nat \<Rightarrow> 'r list \<Rightarrow> 'r list list" where
  "fetched_batches 0 k cursor = []"
| "fetched_batches (Suc n) k cursor = take k cursor # fetched_batches n k (drop k cursor)"

definition batch_ops :: "pystr \<Rightarrow> 'r list list \<Rightarrow> 'r mysql_op list" where
  "batch_ops sql bs = concat (map (\<lambda>b. [ExecuteMany sql b, Commit]) bs)"


section \<open>Worked values of the translator\<close>

text \<open>
  C2: the translator returns \<open>TEXT\<close> for \<open>TEXT\<close>, keeps \<open>VARCHAR(100)\<close>, completes
  \<open>VARCHAR\<close> to \<open>VARCHAR(255)\<close>, maps \<open>NVARCHAR(50)\<close> to \<open>VARCHAR(50)\<close>,
  \<open>UNSIGNED BIG INT\<close> to \<open>BIGINT UNSIGNED\<close>, \<open>UNSIGNED BIG INT(20)\<close> to
  \<open>BIGINT(20) UNSIGNED\<close>, \<open>INT1\<close> to \<open>INT\<close>, \<open>DOUBLE PRECISION\<close> to \<open>DOUBLE\<close>, and fails
  with the invalid-type error on the empty string.
\<close>

theorem translate_examples:
  "translate_type_from_sqlite_to_mysql (py ''TEXT'') = Inr (py ''TEXT'')
   \<and> translate_type_from_sqlite_to_mysql (py ''VARCHAR(100)'') = Inr (py ''VARCHAR(100)'')
   \<and> translate_type_from_sqlite_to_mysql (py ''VARCHAR'') = Inr (py ''VARCHAR(255)'')
   \<and> translate_type_from_sqlite_to_mysql (py ''NVARCHAR(50)'') = Inr (py ''VARCHAR(50)'')
   \<and> translate_type_from_sqlite_to_mysql (py ''UNSIGNED BIG INT'') = Inr (py ''BIGINT UNSIGNED'')
   \<and> translate_type_from_sqlite_to_mysql (py ''UNSIGNED BIG INT(20)'')
         = Inr (py ''BIGINT(20) UNSIGNED'')
   \<and> translate_type_from_sqlite_to_mysql (py ''INT1'') = Inr (py ''INT'')
   \<and> translate_type_from_sqlite_to_mysql (py ''DOUBLE PRECISION'') = Inr (py ''DOUBLE'')
   \<and> translate_type_from_sqlite_to_mysql (py '''') = Inl InvalidColumnType"
  by code_simp

section \<open>Facts about the character tables\<close>

lemma whitespace_table:
  "list_all (\<lambda>c. upper_char c = [c] \<and> c \<noteq> cp CHR ''('' \<and> c \<noteq> cp CHR '')'' \<and> \<not> isdigit c)
     whitespace_codes"
  by code_simp

lemma isspace_cases:
  assumes "isspace c"
  shows "upper_char c = [c]" and "c \<noteq> cp CHR ''(''" and "c \<noteq> cp CHR '')''" and "\<not> isdigit c"
  using assms whitespace_table unfolding isspace_def list_all_iff by blast+

lemma paren_not_space: "\<not> isspace (cp CHR ''('')"
  using isspace_cases(2) by blast

lemma digit_table: "list_all (\<lambda>(lo, hi). 48 \<le> lo) digit_ranges"
  by code_simp

lemma isdigit_ge: "isdigit d \<Longrightarrow> 48 \<le> d"
proof -
  assume "isdigit d"
  then obtain lo hi where m: "(lo, hi) \<in> set digit_ranges" and d: "lo \<le> d"
    unfolding isdigit_def list_ex_iff by auto
  from m digit_table have "48 \<le> lo" unfolding list_all_iff by auto
  with d show ?thesis by simp
qed

lemma cp_paren: "cp CHR ''('' = 40" "cp CHR '')'' = 41"
  by (simp_all add: cp_def)

lemma isdigit_not_paren: "isdigit d \<Longrightarrow> d \<noteq> cp CHR ''('' \<and> d \<noteq> cp CHR '')''"
  using isdigit_ge[of d] by (auto simp: cp_paren)

lemma upper_special_table:
  "list_all (\<lambda>(k, u). list_all (\<lambda>x. \<not> (97 \<le> x \<and> x \<le> 122)) u) upper_special"
  by code_simp

lemma upper_ranges_table:
  "list_all (\<lambda>(lo, hi, step, target). 122 < target \<or> target + (hi - lo) < 97) upper_ranges"
  by code_simp

lemma upper_char_no_lower:
  assumes "x \<in> set (upper_char c)"
  shows "\<not> (97 \<le> x \<and> x \<le> 122)"
proof (cases "c < 128")
  case True
  with assms show ?thesis by (auto simp: upper_char_def split: if_splits)
next
  case False
  show ?thesis
  proof (cases "map_of upper_special c")
    case (Some u)
    then have "(c, u) \<in> set upper_special" by (rule map_of_SomeD)
    with upper_special_table have "\<forall>x\<in>set u. \<not> (97 \<le> x \<and> x \<le> 122)"
      unfolding list_all_iff by auto
    moreover from assms False Some have "x \<in> set u" by (simp add: upper_char_def)
    ultimately show ?thesis by blast
  next
    case None
    show ?thesis
    proof (cases "find (\<lambda>(lo, hi, step, target). lo \<le> c \<and> c \<le> hi \<and> (c - lo) mod step = 0)
                    upper_ranges")
      case None2: None
      with assms False None have "x = c" by (simp add: upper_char_def)
      with False show ?thesis by simp
    next
      case (Some r)
      obtain lo hi step target where r: "r = (lo, hi, step, target)" by (cases r) auto
      from Some r have m: "(lo, hi, step, target) \<in> set upper_ranges" and b: "lo \<le> c" "c \<le> hi"
        by (auto simp: find_Some_iff in_set_conv_nth)
      from m upper_ranges_table have t: "122 < target \<or> target + (hi - lo) < 97"
        unfolding list_all_iff by auto
      from assms False None Some r have "x = target + (c - lo)" by (simp add: upper_char_def)
      with t b show ?thesis by auto
    qed
  qed
qed

lemma upper_no_lower: "x \<in> set (upper s) \<Longrightarrow> \<not> (97 \<le> x \<and> x \<le> 122)"
  using upper_char_no_lower by (auto simp: upper_def)

lemma upper_append: "upper (a @ b) = upper a @ upper b"
  by (simp add: upper_def)

lemma upper_Cons: "upper (c # s) = upper_char c @ upper s"
  by (simp add: upper_def)

lemma upper_ascii:
  "\<forall>c\<in>set s. c < 128 \<Longrightarrow> upper s = map (\<lambda>c. if 97 \<le> c \<and> c \<le> 122 then c - 32 else c) s"
  by (induction s) (simp_all add: upper_def upper_char_def)

section \<open>When the translator fails\<close>

lemma takeWhile_Nil_iff: "takeWhile P xs = [] \<longleftrightarrow> xs = [] \<or> (\<exists>y ys. xs = y # ys \<and> \<not> P y)"
  by (cases xs) auto

lemma valid_column_type_None:
  "valid_column_type s = None \<longleftrightarrow> strip s = [] \<or> (\<exists>r. strip s = cp CHR ''('' # r)"
  by (auto simp: valid_column_type_def COLUMN_PATTERN_match_def Let_def takeWhile_Nil_iff)

lemma translate_None:
  "valid_column_type s = None \<Longrightarrow> translate_type_from_sqlite_to_mysql s = Inl InvalidColumnType"
  by (simp add: translate_type_from_sqlite_to_mysql_def)

lemma translate_Some:
  "valid_column_type s = Some m \<Longrightarrow> \<exists>t. translate_type_from_sqlite_to_mysql s = Inr t"
  by (simp add: translate_type_from_sqlite_to_mysql_def Let_def del: set_simps)

lemma translate_Inl_iff:
  "translate_type_from_sqlite_to_mysql s = Inl e \<longleftrightarrow> e = InvalidColumnType \<and> valid_column_type s = None"
proof (cases "valid_column_type s")
  case None
  then show ?thesis using translate_None[of s] by auto
next
  case (Some m)
  then show ?thesis using translate_Some[of s m] by auto
qed

lemma translate_Inr_iff:
  "(\<exists>t. translate_type_from_sqlite_to_mysql s = Inr t) \<longleftrightarrow> valid_column_type s \<noteq> None"
proof (cases "valid_column_type s")
  case None
  then show ?thesis using translate_None[of s] by auto
next
  case (Some m)
  then show ?thesis using translate_Some[of s m] by auto
qed

lemma rstrip_keep: "\<not> isspace c \<Longrightarrow> rstrip (a @ c # b) = a @ c # rstrip b"
  by (induction b rule: rev_induct) (auto simp: rstrip_def)

lemma rstrip_prefix: "prefix (rstrip x) x"
proof -
  have "x = rev (dropWhile isspace (rev x)) @ rev (takeWhile isspace (rev x))"
    by (metis rev_append rev_rev_ident takeWhile_dropWhile_id)
  then show ?thesis unfolding rstrip_def by (metis prefixI)
qed

lemma lstrip_split: "s = takeWhile isspace s @ lstrip s"
  by (simp add: lstrip_def)

lemma strip_Nil_iff: "strip s = [] \<longleftrightarrow> (\<forall>c\<in>set s. isspace c)"
proof
  assume e: "strip s = []"
  have a: "\<forall>c\<in>set (lstrip s). isspace c"
    using e by (simp add: strip_def rstrip_def dropWhile_eq_Nil_conv)
  have "lstrip s = []"
  proof (rule ccontr)
    assume n: "lstrip s \<noteq> []"
    then have "\<not> isspace (hd (lstrip s))" unfolding lstrip_def by (rule hd_dropWhile)
    moreover have "hd (lstrip s) \<in> set (lstrip s)" using n by simp
    ultimately show False using a by blast
  qed
  then show "\<forall>c\<in>set s. isspace c" by (simp add: lstrip_def dropWhile_eq_Nil_conv)
next
  assume "\<forall>c\<in>set s. isspace c"
  then have "lstrip s = []" by (simp add: lstrip_def dropWhile_eq_Nil_conv)
  then show "strip s = []" by (simp add: strip_def rstrip_def)
qed

lemma strip_paren_iff:
  "(\<exists>r. strip s = cp CHR ''('' # r)
     \<longleftrightarrow> (\<exists>ws r. (\<forall>c\<in>set ws. isspace c) \<and> s = ws @ cp CHR ''('' # r)"
proof
  assume "\<exists>r. strip s = cp CHR ''('' # r"
  then obtain r where r: "strip s = cp CHR ''('' # r" by blast
  have "prefix (strip s) (lstrip s)" unfolding strip_def by (rule rstrip_prefix)
  with r obtain r' where l: "lstrip s = cp CHR ''('' # r'" by (auto simp: prefix_def)
  have "s = takeWhile isspace s @ cp CHR ''('' # r'" using lstrip_split[of s] l by simp
  moreover have "\<forall>c\<in>set (takeWhile isspace s). isspace c" by (auto dest: set_takeWhileD)
  ultimately show "\<exists>ws r. (\<forall>c\<in>set ws. isspace c) \<and> s = ws @ cp CHR ''('' # r" by blast
next
  assume "\<exists>ws r. (\<forall>c\<in>set ws. isspace c) \<and> s = ws @ cp CHR ''('' # r"
  then obtain ws r where w: "\<forall>c\<in>set ws. isspace c" and s: "s = ws @ cp CHR ''('' # r" by blast
  have "lstrip s = cp CHR ''('' # r"
    using w paren_not_space by (simp add: s lstrip_def dropWhile_append2)
  then have "strip s = cp CHR ''('' # rstrip r"
    using rstrip_keep[OF paren_not_space, of "[]" r] by (simp add: strip_def)
  then show "\<exists>r. strip s = cp CHR ''('' # r" by blast
qed

text \<open>
  C4: the translator fails with the invalid-type error exactly when the input, with the
  surrounding whitespace stripped, is empty or begins with an opening parenthesis; on
  every other input it returns a string. In terms of the input itself, it fails exactly
  when the input is made of whitespace only, or is some whitespace followed by an opening
  parenthesis and anything; whitespace is what \<open>str.strip()\<close> removes.
\<close>

theorem translate_fails_iff:
  "(translate_type_from_sqlite_to_mysql s = Inl InvalidColumnType
      \<longleftrightarrow> strip s = [] \<or> (\<exists>r. strip s = cp CHR ''('' # r))
   \<and> ((\<exists>t. translate_type_from_sqlite_to_mysql s = Inr t)
      \<longleftrightarrow> \<not> (strip s = [] \<or> (\<exists>r. strip s = cp CHR ''('' # r)))
   \<and> (strip s = [] \<or> (\<exists>r. strip s = cp CHR ''('' # r)
      \<longleftrightarrow> (\<exists>ws. (\<forall>c\<in>set ws. isspace c) \<and> (s = ws \<or> (\<exists>r. s = ws @ cp CHR ''('' # r))))"
proof -
  have "(strip s = [] \<or> (\<exists>r. strip s = cp CHR ''('' # r))
      \<longleftrightarrow> (\<exists>ws. (\<forall>c\<in>set ws. isspace c) \<and> (s = ws \<or> (\<exists>r. s = ws @ cp CHR ''('' # r)))"
    unfolding strip_Nil_iff strip_paren_iff by blast
  then show ?thesis
    by (simp add: translate_Inl_iff translate_Inr_iff valid_column_type_None)
qed

theorem translate_fails_iff_witness:
  "translate_type_from_sqlite_to_mysql (py ''  (10)'') = Inl InvalidColumnType
   \<and> translate_type_from_sqlite_to_mysql [160] = Inl InvalidColumnType
   \<and> translate_type_from_sqlite_to_mysql [133, 9, 40, 49, 41] = Inl InvalidColumnType
   \<and> (\<exists>t. translate_type_from_sqlite_to_mysql (py '' integer '') = Inr t)
   \<and> (\<exists>t. translate_type_from_sqlite_to_mysql [95, 160] = Inr t)"
proof -
  have a: "strip (py ''  (10)'') = py ''(10)''" by code_simp
  have b: "strip (py '' integer '') = py ''integer''" by code_simp
  have c: "strip [160] = []" by code_simp
  have d: "strip [133, 9, 40, 49, 41] = [40, 49, 41]" by code_simp
  have e: "strip [95, 160] = [95]" by code_simp
  have p: "cp CHR ''('' = 40" by (simp add: cp_def)
  have q: "py ''(10)'' = [40, 49, 48, 41]" "py ''integer'' \<noteq> []" "hd (py ''integer'') \<noteq> 40"
    by (simp_all add: py_def cp_def)
  have 1: "translate_type_from_sqlite_to_mysql (py ''  (10)'') = Inl InvalidColumnType"
    using translate_fails_iff [of "py ''  (10)''"] by (simp add: a p q)
  have 2: "translate_type_from_sqlite_to_mysql [160] = Inl InvalidColumnType"
    using translate_fails_iff [of "[160]"] by (simp add: c)
  have 3: "translate_type_from_sqlite_to_mysql [133, 9, 40, 49, 41] = Inl InvalidColumnType"
    using translate_fails_iff [of "[133, 9, 40, 49, 41]"] by (simp add: d p)
  have 4: "\<exists>t. translate_type_from_sqlite_to_mysql (py '' integer '') = Inr t"
    using translate_fails_iff [of "py '' integer ''"] q by (auto simp add: b p)
  have 5: "\<exists>t. translate_type_from_sqlite_to_mysql [95, 160] = Inr t"
    using translate_fails_iff [of "[95, 160]"] by (simp add: e p)
  from 1 2 3 4 5 show ?thesis by blast
qed

section \<open>Whitespace before the parenthesis\<close>

lemma lstrip_keep: "\<exists>c\<in>set pre. \<not> isspace c \<Longrightarrow> lstrip (pre @ r) = lstrip pre @ r"
  by (auto simp: lstrip_def)

lemma classified_last:
  "d \<in> set [py ''TEXT'', py ''CLOB'', py ''CHARACTER'', py ''NCHAR'', py ''NATIVE CHARACTER'',
             py ''VARYING CHARACTER'', py ''NVARCHAR'', py ''VARCHAR'', py ''DOUBLE PRECISION'',
             py ''UNSIGNED BIG INT'', py ''INT1'', py ''INT2''] \<Longrightarrow> \<not> isspace (last d)"
proof -
  have "list_all (\<lambda>d. \<not> isspace (last d))
          [py ''TEXT'', py ''CLOB'', py ''CHARACTER'', py ''NCHAR'', py ''NATIVE CHARACTER'',
           py ''VARYING CHARACTER'', py ''NVARCHAR'', py ''VARCHAR'', py ''DOUBLE PRECISION'',
           py ''UNSIGNED BIG INT'', py ''INT1'', py ''INT2'']"
    by code_simp
  then show "d \<in> set [py ''TEXT'', py ''CLOB'', py ''CHARACTER'', py ''NCHAR'', py ''NATIVE CHARACTER'',
             py ''VARYING CHARACTER'', py ''NVARCHAR'', py ''VARCHAR'', py ''DOUBLE PRECISION'',
             py ''UNSIGNED BIG INT'', py ''INT1'', py ''INT2''] \<Longrightarrow> \<not> isspace (last d)"
    unfolding list_all_iff by blast
qed

lemma takeWhile_upto: "c \<notin> set a \<Longrightarrow> takeWhile (\<lambda>x. x \<noteq> c) (a @ c # b) = a"
  by (induction a) auto

lemma valid_column_type_ws:
  assumes w: "isspace w" and np: "cp CHR ''('' \<notin> set pre" and ns: "\<exists>c\<in>set pre. \<not> isspace c"
  shows "valid_column_type (pre @ w # cp CHR ''('' # rest) = Some (lstrip pre @ [w])"
proof -
  define tok where "tok = lstrip pre @ [w]"
  have l: "lstrip (pre @ w # cp CHR ''('' # rest) = lstrip pre @ w # cp CHR ''('' # rest"
    using ns by (rule lstrip_keep)
  have r: "rstrip (tok @ cp CHR ''('' # rest) = tok @ cp CHR ''('' # rstrip rest"
    using paren_not_space by (rule rstrip_keep)
  have s: "strip (pre @ w # cp CHR ''('' # rest) = tok @ cp CHR ''('' # rstrip rest"
    using l r by (simp add: strip_def tok_def)
  have "set (lstrip pre) \<subseteq> set pre"
    unfolding lstrip_def by (meson set_dropWhileD subsetI)
  with np have "cp CHR ''('' \<notin> set tok" using isspace_cases(2)[OF w] by (auto simp: tok_def)
  then have t: "takeWhile (\<lambda>c. c \<noteq> cp CHR ''('') (tok @ cp CHR ''('' # rstrip rest) = tok"
    by (rule takeWhile_upto)
  have ne: "tok \<noteq> []" by (simp add: tok_def)
  show ?thesis
    unfolding valid_column_type_def COLUMN_PATTERN_match_def s Let_def t
    using ne by (simp add: tok_def)
qed

lemma translate_unclassified:
  assumes "valid_column_type s = Some m"
    and "upper m \<notin> set [py ''TEXT'', py ''CLOB'', py ''CHARACTER'', py ''NCHAR'',
             py ''NATIVE CHARACTER'', py ''VARYING CHARACTER'', py ''NVARCHAR'', py ''VARCHAR'',
             py ''DOUBLE PRECISION'', py ''UNSIGNED BIG INT'', py ''INT1'', py ''INT2'']"
  shows "translate_type_from_sqlite_to_mysql s = Inr (upper s)"
  using assms by (simp add: translate_type_from_sqlite_to_mysql_def Let_def)

lemma upper_paren: "upper_char (cp CHR ''('') = [cp CHR ''('']"
  by code_simp

text \<open>
  C9: when a whitespace character stands between the type name and the opening
  parenthesis (as in \<open>VARCHAR (100)\<close>), the leading-token match ends with that whitespace
  character, no classification applies, and the translator returns the upper-cased full
  input string: the name and the text after the parenthesis in upper case, the whitespace
  character and the parenthesis as they are. The result holds no letter from \<open>a\<close> to \<open>z\<close>,
  and for an input of ASCII characters it is the input with these letters replaced by
  \<open>A\<close> to \<open>Z\<close>.
\<close>

theorem space_before_paren:
  assumes w: "isspace w" and np: "cp CHR ''('' \<notin> set pre" and ns: "\<exists>c\<in>set pre. \<not> isspace c"
  shows "valid_column_type (pre @ w # cp CHR ''('' # rest) = Some (lstrip pre @ [w])
       \<and> translate_type_from_sqlite_to_mysql (pre @ w # cp CHR ''('' # rest)
           = Inr (upper (pre @ w # cp CHR ''('' # rest))
       \<and> upper (pre @ w # cp CHR ''('' # rest) = upper pre @ w # cp CHR ''('' # upper rest
       \<and> (\<forall>x\<in>set (upper (pre @ w # cp CHR ''('' # rest)). \<not> (97 \<le> x \<and> x \<le> 122))
       \<and> ((\<forall>c\<in>set (pre @ rest). c < 128) \<longrightarrow>
            translate_type_from_sqlite_to_mysql (pre @ w # cp CHR ''('' # rest)
              = Inr (map (\<lambda>c. if 97 \<le> c \<and> c \<le> 122 then c - 32 else c) pre @ w # cp CHR ''(''
                     # map (\<lambda>c. if 97 \<le> c \<and> c \<le> 122 then c - 32 else c) rest))"
proof -
  have v: "valid_column_type (pre @ w # cp CHR ''('' # rest) = Some (lstrip pre @ [w])"
    using assms by (rule valid_column_type_ws)
  have "last (upper (lstrip pre @ [w])) = w"
    using isspace_cases(1)[OF w] by (simp add: upper_def)
  then have "isspace (last (upper (lstrip pre @ [w])))" using w by simp
  then have "upper (lstrip pre @ [w]) \<notin> set [py ''TEXT'', py ''CLOB'', py ''CHARACTER'',
             py ''NCHAR'', py ''NATIVE CHARACTER'', py ''VARYING CHARACTER'', py ''NVARCHAR'',
             py ''VARCHAR'', py ''DOUBLE PRECISION'', py ''UNSIGNED BIG INT'', py ''INT1'',
             py ''INT2'']"
    using classified_last by blast
  with v have t: "translate_type_from_sqlite_to_mysql (pre @ w # cp CHR ''('' # rest)
           = Inr (upper (pre @ w # cp CHR ''('' # rest))"
    by (rule translate_unclassified)
  have u: "upper (pre @ w # cp CHR ''('' # rest) = upper pre @ w # cp CHR ''('' # upper rest"
    using isspace_cases(1)[OF w] upper_paren by (simp add: upper_append upper_Cons)
  have n: "\<forall>x\<in>set (upper (pre @ w # cp CHR ''('' # rest)). \<not> (97 \<le> x \<and> x \<le> 122)"
    using upper_no_lower by blast
  have a: "(\<forall>c\<in>set (pre @ rest). c < 128) \<longrightarrow>
            translate_type_from_sqlite_to_mysql (pre @ w # cp CHR ''('' # rest)
              = Inr (map (\<lambda>c. if 97 \<le> c \<and> c \<le> 122 then c - 32 else c) pre @ w # cp CHR ''(''
                     # map (\<lambda>c. if 97 \<le> c \<and> c \<le> 122 then c - 32 else c) rest)"
  proof
    assume "\<forall>c\<in>set (pre @ rest). c < 128"
    then have "\<forall>c\<in>set pre. c < 128" "\<forall>c\<in>set rest. c < 128" by auto
    then show "translate_type_from_sqlite_to_mysql (pre @ w # cp CHR ''('' # rest)
              = Inr (map (\<lambda>c. if 97 \<le> c \<and> c \<le> 122 then c - 32 else c) pre @ w # cp CHR ''(''
                     # map (\<lambda>c. if 97 \<le> c \<and> c \<le> 122 then c - 32 else c) rest)"
      unfolding t u by (simp only: upper_ascii)
  qed
  from v t u n a show ?thesis by blast
qed

theorem space_before_paren_witness:
  "translate_type_from_sqlite_to_mysql (py ''varchar (100)'') = Inr (py ''VARCHAR (100)'')
   \<and> valid_column_type (py ''varchar (100)'') = Some (py ''varchar '')
   \<and> translate_type_from_sqlite_to_mysql (py ''Decimal'' @ [160] @ py ''(10,x)'')
        = Inr (py ''DECIMAL'' @ [160] @ py ''(10,X)'')"
proof -
  have a: "isspace (cp CHR '' '')" "isspace 160" by code_simp+
  have b: "cp CHR ''('' \<notin> set (py ''varchar'')" "cp CHR ''('' \<notin> set (py ''Decimal'')"
    by (simp_all add: py_def cp_def)
  have c: "\<exists>c\<in>set (py ''varchar''). \<not> isspace c" "\<exists>c\<in>set (py ''Decimal''). \<not> isspace c"
    by code_simp+
  have d: "\<forall>c\<in>set (py ''varchar'' @ py ''100)''). c < 128"
    "\<forall>c\<in>set (py ''Decimal'' @ py ''10,x)''). c < 128"
    by (simp_all add: py_def cp_def)
  have f: "py ''varchar (100)'' = py ''varchar'' @ cp CHR '' '' # cp CHR ''('' # py ''100)''"
    "py ''Decimal'' @ [160] @ py ''(10,x)'' = py ''Decimal'' @ 160 # cp CHR ''('' # py ''10,x)''"
    by (simp_all add: py_def)
  have g: "map (\<lambda>c. if 97 \<le> c \<and> c \<le> 122 then c - 32 else c) (py ''varchar'')
             @ cp CHR '' '' # cp CHR ''(''
             # map (\<lambda>c. if 97 \<le> c \<and> c \<le> 122 then c - 32 else c) (py ''100)'')
           = py ''VARCHAR (100)''"
    "map (\<lambda>c. if 97 \<le> c \<and> c \<le> 122 then c - 32 else c) (py ''Decimal'')
             @ 160 # cp CHR ''(''
             # map (\<lambda>c. if 97 \<le> c \<and> c \<le> 122 then c - 32 else c) (py ''10,x)'')
           = py ''DECIMAL'' @ [160] @ py ''(10,X)''"
    by (simp_all add: py_def cp_def)
  have h: "lstrip (py ''varchar'') @ [cp CHR '' ''] = py ''varchar ''" by code_simp
  note t1 = space_before_paren [OF a(1) b(1) c(1), of "py ''100)''", folded f(1)]
  note t2 = space_before_paren [OF a(2) b(2) c(2), of "py ''10,x)''", folded f(2)]
  from t1 d(1) have 1: "translate_type_from_sqlite_to_mysql (py ''varchar (100)'')
      = Inr (py ''VARCHAR (100)'')" unfolding g by blast
  from t1 have 2: "valid_column_type (py ''varchar (100)'') = Some (py ''varchar '')"
    unfolding h by blast
  from t2 d(2) have 3: "translate_type_from_sqlite_to_mysql (py ''Decimal'' @ [160] @ py ''(10,x)'')
        = Inr (py ''DECIMAL'' @ [160] @ py ''(10,X)'')" unfolding g by blast
  from 1 2 3 show ?thesis by blast
qed

section \<open>The length suffix\<close>

lemma suffix_match_here_Some:
  assumes "suffix_match_here s = Some m"
  shows "\<exists>ds. ds \<noteq> [] \<and> (\<forall>d\<in>set ds. isdigit d) \<and> m = cp CHR ''('' # ds @ [cp CHR '')'']
           \<and> (s = m \<or> s = m @ [10])"
proof (cases s)
  case Nil
  with assms show ?thesis by (simp add: suffix_match_here_def)
next
  case (Cons c r)
  define ds where "ds = takeWhile isdigit r"
  define rest where "rest = dropWhile isdigit r"
  have r: "r = ds @ rest" by (simp add: ds_def rest_def)
  from assms Cons have c: "c = cp CHR ''(''" and ne: "ds \<noteq> []"
    and rr: "rest = [cp CHR '')''] \<or> rest = [cp CHR '')'', 10]"
    and m: "m = cp CHR ''('' # ds @ [cp CHR '')'']"
    by (auto simp: suffix_match_here_def Let_def ds_def rest_def split: if_splits)
  have dg: "\<forall>d\<in>set ds. isdigit d" by (auto simp: ds_def dest: set_takeWhileD)
  from rr have "s = m \<or> s = m @ [10]"
    using Cons c r m by auto
  with ne dg m show ?thesis by blast
qed

lemma suffix_match_here_direct:
  assumes "ds \<noteq> []" "\<forall>d\<in>set ds. isdigit d" "tail = [] \<or> tail = [10]"
  shows "suffix_match_here (cp CHR ''('' # ds @ cp CHR '')'' # tail)
           = Some (cp CHR ''('' # ds @ [cp CHR '')''])"
proof -
  have np: "\<not> isdigit (cp CHR '')'')" using isdigit_not_paren by blast
  have t: "takeWhile isdigit (ds @ cp CHR '')'' # tail) = ds"
    using assms(2) np by (simp add: takeWhile_append2)
  have d: "dropWhile isdigit (ds @ cp CHR '')'' # tail) = cp CHR '')'' # tail"
    using assms(2) np by (simp add: dropWhile_append2)
  show ?thesis using assms(1,3) by (auto simp: suffix_match_here_def t d)
qed

lemma suffix_match_here_no_paren:
  assumes "suffix_match_here (c # t) = Some m"
  shows "cp CHR ''('' \<notin> set t"
proof -
  from suffix_match_here_Some[OF assms] obtain ds where
    dg: "\<forall>d\<in>set ds. isdigit d" and m: "m = cp CHR ''('' # ds @ [cp CHR '')'']"
    and s: "c # t = m \<or> c # t = m @ [10]" by blast
  from s m have t: "t = ds @ [cp CHR '')''] \<or> t = ds @ [cp CHR '')'', 10]"
    by (elim disjE) simp_all
  have "cp CHR ''('' \<notin> set ds" using dg isdigit_not_paren by blast
  moreover have "cp CHR ''('' \<noteq> cp CHR '')''" "cp CHR ''('' \<noteq> 10" by (simp_all add: cp_def)
  ultimately show ?thesis using t by (elim disjE) simp_all
qed

lemma suffix_search_Some:
  "suffix_search s = Some m \<Longrightarrow>
     \<exists>pre ds. ds \<noteq> [] \<and> (\<forall>d\<in>set ds. isdigit d) \<and> m = cp CHR ''('' # ds @ [cp CHR '')'']
           \<and> (s = pre @ m \<or> s = pre @ m @ [10])"
proof (induction s)
  case Nil
  then show ?case by simp
next
  case (Cons c s)
  show ?case
  proof (cases "suffix_match_here (c # s)")
    case None
    with Cons.prems have "suffix_search s = Some m" by simp
    from Cons.IH[OF this] obtain pre ds where
      "ds \<noteq> []" "\<forall>d\<in>set ds. isdigit d" "m = cp CHR ''('' # ds @ [cp CHR '')'']"
      "s = pre @ m \<or> s = pre @ m @ [10]" by blast
    then have "ds \<noteq> [] \<and> (\<forall>d\<in>set ds. isdigit d) \<and> m = cp CHR ''('' # ds @ [cp CHR '')'']
        \<and> (c # s = (c # pre) @ m \<or> c # s = (c # pre) @ m @ [10])" by simp
    then show ?thesis by blast
  next
    case (Some m')
    with Cons.prems have "m' = m" by simp
    with Some suffix_match_here_Some[of "c # s" m] obtain ds where
      "ds \<noteq> []" "\<forall>d\<in>set ds. isdigit d" "m = cp CHR ''('' # ds @ [cp CHR '')'']"
      "c # s = m \<or> c # s = m @ [10]" by blast
    then have "ds \<noteq> [] \<and> (\<forall>d\<in>set ds. isdigit d) \<and> m = cp CHR ''('' # ds @ [cp CHR '')'']
        \<and> (c # s = [] @ m \<or> c # s = [] @ m @ [10])" by simp
    then show ?thesis by blast
  qed
qed

lemma suffix_search_direct:
  assumes "ds \<noteq> []" "\<forall>d\<in>set ds. isdigit d" "tail = [] \<or> tail = [10]"
  shows "suffix_search (pre @ cp CHR ''('' # ds @ cp CHR '')'' # tail)
           = Some (cp CHR ''('' # ds @ [cp CHR '')''])"
proof (induction pre)
  case Nil
  show ?case using suffix_match_here_direct[OF assms] by simp
next
  case (Cons c pre)
  have "cp CHR ''('' \<in> set (pre @ cp CHR ''('' # ds @ cp CHR '')'' # tail)" by simp
  then have "suffix_match_here (c # pre @ cp CHR ''('' # ds @ cp CHR '')'' # tail) = None"
    using suffix_match_here_no_paren[of c "pre @ cp CHR ''('' # ds @ cp CHR '')'' # tail"]
    by (cases "suffix_match_here (c # pre @ cp CHR ''('' # ds @ cp CHR '')'' # tail)") auto
  with Cons show ?case by simp
qed

lemma suffix_search_iff:
  "suffix_search s = Some m \<longleftrightarrow>
     (\<exists>pre ds. ds \<noteq> [] \<and> (\<forall>d\<in>set ds. isdigit d) \<and> m = cp CHR ''('' # ds @ [cp CHR '')'']
           \<and> (s = pre @ m \<or> s = pre @ m @ [10]))"
proof
  assume "suffix_search s = Some m"
  then show "\<exists>pre ds. ds \<noteq> [] \<and> (\<forall>d\<in>set ds. isdigit d) \<and> m = cp CHR ''('' # ds @ [cp CHR '')'']
           \<and> (s = pre @ m \<or> s = pre @ m @ [10])" by (rule suffix_search_Some)
next
  assume "\<exists>pre ds. ds \<noteq> [] \<and> (\<forall>d\<in>set ds. isdigit d) \<and> m = cp CHR ''('' # ds @ [cp CHR '')'']
           \<and> (s = pre @ m \<or> s = pre @ m @ [10])"
  then obtain pre ds where a: "ds \<noteq> []" "\<forall>d\<in>set ds. isdigit d"
    and m: "m = cp CHR ''('' # ds @ [cp CHR '')'']"
    and s: "s = pre @ m \<or> s = pre @ m @ [10]" by blast
  from s show "suffix_search s = Some m"
  proof
    assume "s = pre @ m"
    then show ?thesis using suffix_search_direct[OF a, of "[]" pre] m by simp
  next
    assume "s = pre @ m @ [10]"
    then show ?thesis using suffix_search_direct[OF a, of "[10]" pre] m by simp
  qed
qed


lemma classified_values:
  "py ''TEXT'' = [84, 69, 88, 84]"
  "py ''CLOB'' = [67, 76, 79, 66]"
  "py ''CHARACTER'' = [67, 72, 65, 82, 65, 67, 84, 69, 82]"
  "py ''NCHAR'' = [78, 67, 72, 65, 82]"
  "py ''NATIVE CHARACTER'' = [78, 65, 84, 73, 86, 69, 32, 67, 72, 65, 82, 65, 67, 84, 69, 82]"
  "py ''VARYING CHARACTER''
     = [86, 65, 82, 89, 73, 78, 71, 32, 67, 72, 65, 82, 65, 67, 84, 69, 82]"
  "py ''NVARCHAR'' = [78, 86, 65, 82, 67, 72, 65, 82]"
  "py ''VARCHAR'' = [86, 65, 82, 67, 72, 65, 82]"
  "py ''DOUBLE PRECISION'' = [68, 79, 85, 66, 76, 69, 32, 80, 82, 69, 67, 73, 83, 73, 79, 78]"
  "py ''UNSIGNED BIG INT'' = [85, 78, 83, 73, 71, 78, 69, 68, 32, 66, 73, 71, 32, 73, 78, 84]"
  "py ''INT1'' = [73, 78, 84, 49]"
  "py ''INT2'' = [73, 78, 84, 50]"
  by (simp_all add: py_def cp_def)

lemma translate_text_family:
  assumes "valid_column_type s = Some t" and "upper t \<in> set [py ''TEXT'', py ''CLOB'']"
  shows "translate_type_from_sqlite_to_mysql s = Inr (py ''TEXT'')"
  using assms
  by (auto simp add: translate_type_from_sqlite_to_mysql_def Let_def classified_values)

lemma translate_char_family:
  assumes "valid_column_type s = Some t"
    and "upper t \<in> set [py ''CHARACTER'', py ''NCHAR'', py ''NATIVE CHARACTER'']"
  shows "translate_type_from_sqlite_to_mysql s = Inr (py ''CHAR'' @ column_type_length s None)"
  using assms
  by (auto simp add: translate_type_from_sqlite_to_mysql_def Let_def classified_values)

lemma translate_varchar_family:
  assumes "valid_column_type s = Some t"
    and "upper t \<in> set [py ''VARYING CHARACTER'', py ''NVARCHAR'', py ''VARCHAR'']"
  shows "translate_type_from_sqlite_to_mysql s
           = Inr (py ''VARCHAR'' @ column_type_length s (Some 255))"
  using assms
  by (auto simp add: translate_type_from_sqlite_to_mysql_def Let_def classified_values)

lemma translate_double_precision:
  assumes "valid_column_type s = Some t" and "upper t = py ''DOUBLE PRECISION''"
  shows "translate_type_from_sqlite_to_mysql s = Inr (py ''DOUBLE'')"
  using assms
  by (auto simp add: translate_type_from_sqlite_to_mysql_def Let_def classified_values)

lemma translate_unsigned_big_int:
  assumes "valid_column_type s = Some t" and "upper t = py ''UNSIGNED BIG INT''"
  shows "translate_type_from_sqlite_to_mysql s
           = Inr (py ''BIGINT'' @ column_type_length s None @ py '' UNSIGNED'')"
  using assms
  by (auto simp add: translate_type_from_sqlite_to_mysql_def Let_def classified_values)

lemma translate_int_family:
  assumes "valid_column_type s = Some t" and "upper t \<in> set [py ''INT1'', py ''INT2'']"
  shows "translate_type_from_sqlite_to_mysql s = Inr (py ''INT'')"
  using assms
  by (auto simp add: translate_type_from_sqlite_to_mysql_def Let_def classified_values)

lemma str_255: "str_of_int 255 = py ''255''"
  by code_simp

lemma column_type_length_cases:
  "column_type_length s None = (case suffix_search s of Some m \<Rightarrow> m | None \<Rightarrow> [])"
  "column_type_length s (Some 255) = (case suffix_search s of Some m \<Rightarrow> m | None \<Rightarrow> py ''(255)'')"
  by (simp_all add: column_type_length_def str_255 py_def split: option.splits)

lemma valid_column_type_unfold:
  "valid_column_type s
     = (if takeWhile (\<lambda>c. c \<noteq> cp CHR ''('') (strip s) = [] then None
        else Some (takeWhile (\<lambda>c. c \<noteq> cp CHR ''('') (strip s)))"
  by (simp add: valid_column_type_def COLUMN_PATTERN_match_def Let_def)

lemma takeWhile_all: "c \<notin> set a \<Longrightarrow> takeWhile (\<lambda>x. x \<noteq> c) a = a"
  by (induction a) auto

lemma dropWhile_neq_Cons: "dropWhile (\<lambda>x. x \<noteq> c) a = d # r \<Longrightarrow> d = c"
  by (induction a) (auto split: if_splits)

lemma valid_column_type_Some:
  "valid_column_type s = Some t \<longleftrightarrow>
     t \<noteq> [] \<and> cp CHR ''('' \<notin> set t \<and> (strip s = t \<or> (\<exists>r. strip s = t @ cp CHR ''('' # r))"
proof
  define x where "x = strip s"
  define tw where "tw = takeWhile (\<lambda>c. c \<noteq> cp CHR ''('') x"
  assume "valid_column_type s = Some t"
  then have "(if tw = [] then None else Some tw) = Some t"
    by (simp only: valid_column_type_unfold tw_def x_def)
  then have t: "t = tw" and ne: "t \<noteq> []" by (cases "tw = []"; simp)+
  have np: "cp CHR ''('' \<notin> set t" unfolding t tw_def by (auto dest: set_takeWhileD)
  have s: "x = t @ dropWhile (\<lambda>c. c \<noteq> cp CHR ''('') x" unfolding t tw_def by simp
  have "x = t \<or> (\<exists>r. x = t @ cp CHR ''('' # r)"
  proof (cases "dropWhile (\<lambda>c. c \<noteq> cp CHR ''('') x")
    case Nil
    with s show ?thesis by simp
  next
    case (Cons c r)
    then have "c = cp CHR ''(''" by (rule dropWhile_neq_Cons)
    with Cons s have "x = t @ cp CHR ''('' # r" by simp
    then show ?thesis by blast
  qed
  with ne np show "t \<noteq> [] \<and> cp CHR ''('' \<notin> set t
      \<and> (strip s = t \<or> (\<exists>r. strip s = t @ cp CHR ''('' # r))"
    unfolding x_def by blast
next
  assume a: "t \<noteq> [] \<and> cp CHR ''('' \<notin> set t \<and> (strip s = t \<or> (\<exists>r. strip s = t @ cp CHR ''('' # r))"
  then have np: "cp CHR ''('' \<notin> set t" and ne: "t \<noteq> []" by blast+
  from a consider "strip s = t" | r where "strip s = t @ cp CHR ''('' # r" by blast
  then have "takeWhile (\<lambda>c. c \<noteq> cp CHR ''('') (strip s) = t"
  proof cases
    case 1
    then show ?thesis using takeWhile_all[OF np] by simp
  next
    case 2
    then show ?thesis using takeWhile_upto[OF np] by simp
  qed
  with ne show "valid_column_type s = Some t"
    by (simp only: valid_column_type_unfold if_False)
qed
text \<open>
  C5, as the code has it. The length-extraction logic recognises a suffix exactly when
  the input ends with an opening parenthesis, a non-empty run of digits and a closing
  parenthesis, optionally followed by one final line feed; the text copied is then that
  parenthesised run. Any other parenthesised content is not recognised: the length is
  empty, or the default \<open>(255)\<close> where one is given. The leading token \<open>t\<close> of the input
  is the stripped input up to its first opening parenthesis. When the upper-cased token
  is not one of the twelve classified names, the translator returns the upper-cased full
  input, which holds no letter from \<open>a\<close> to \<open>z\<close>. When it is a classified name, whatever
  stands in parentheses is dropped: the result is \<open>TEXT\<close>, \<open>DOUBLE\<close> or \<open>INT\<close> for the
  families without a length, and for the families with one it is \<open>CHAR\<close>, \<open>VARCHAR\<close> or
  \<open>BIGINT ... UNSIGNED\<close> with the recognised suffix, or with nothing (\<open>(255)\<close> for
  \<open>VARCHAR\<close>) when there is none.
\<close>

theorem length_suffix_rule:
  "(suffix_search s = Some m \<longleftrightarrow>
      (\<exists>pre ds. ds \<noteq> [] \<and> (\<forall>d\<in>set ds. isdigit d) \<and> m = cp CHR ''('' # ds @ [cp CHR '')'']
           \<and> (s = pre @ m \<or> s = pre @ m @ [10])))
   \<and> column_type_length s None = (case suffix_search s of Some m \<Rightarrow> m | None \<Rightarrow> [])
   \<and> column_type_length s (Some 255)
        = (case suffix_search s of Some m \<Rightarrow> m | None \<Rightarrow> py ''(255)'')
   \<and> (valid_column_type s = Some t \<longleftrightarrow>
        t \<noteq> [] \<and> cp CHR ''('' \<notin> set t \<and> (strip s = t \<or> (\<exists>r. strip s = t @ cp CHR ''('' # r)))
   \<and> (\<forall>x\<in>set (upper s). \<not> (97 \<le> x \<and> x \<le> 122))
   \<and> ((\<forall>c\<in>set s. c < 128) \<longrightarrow>
        upper s = map (\<lambda>c. if 97 \<le> c \<and> c \<le> 122 then c - 32 else c) s)
   \<and> (valid_column_type s = Some t \<longrightarrow>
        (upper t \<notin> set [py ''TEXT'', py ''CLOB'', py ''CHARACTER'', py ''NCHAR'',
             py ''NATIVE CHARACTER'', py ''VARYING CHARACTER'', py ''NVARCHAR'', py ''VARCHAR'',
             py ''DOUBLE PRECISION'', py ''UNSIGNED BIG INT'', py ''INT1'', py ''INT2'']
           \<longrightarrow> translate_type_from_sqlite_to_mysql s = Inr (upper s))
      \<and> (upper t \<in> set [py ''TEXT'', py ''CLOB'']
           \<longrightarrow> translate_type_from_sqlite_to_mysql s = Inr (py ''TEXT''))
      \<and> (upper t \<in> set [py ''CHARACTER'', py ''NCHAR'', py ''NATIVE CHARACTER'']
           \<longrightarrow> translate_type_from_sqlite_to_mysql s
                 = Inr (py ''CHAR'' @ (case suffix_search s of Some m \<Rightarrow> m | None \<Rightarrow> [])))
      \<and> (upper t \<in> set [py ''VARYING CHARACTER'', py ''NVARCHAR'', py ''VARCHAR'']
           \<longrightarrow> translate_type_from_sqlite_to_mysql s
                 = Inr (py ''VARCHAR''
                        @ (case suffix_search s of Some m \<Rightarrow> m | None \<Rightarrow> py ''(255)'')))
      \<and> (upper t = py ''DOUBLE PRECISION''
           \<longrightarrow> translate_type_from_sqlite_to_mysql s = Inr (py ''DOUBLE''))
      \<and> (upper t = py ''UNSIGNED BIG INT''
           \<longrightarrow> translate_type_from_sqlite_to_mysql s
                 = Inr (py ''BIGINT'' @ (case suffix_search s of Some m \<Rightarrow> m | None \<Rightarrow> [])
                        @ py '' UNSIGNED''))
      \<and> (upper t \<in> set [py ''INT1'', py ''INT2'']
           \<longrightarrow> translate_type_from_sqlite_to_mysql s = Inr (py ''INT'')))"
proof (intro conjI impI)
  show "suffix_search s = Some m \<longleftrightarrow>
      (\<exists>pre ds. ds \<noteq> [] \<and> (\<forall>d\<in>set ds. isdigit d) \<and> m = cp CHR ''('' # ds @ [cp CHR '')'']
           \<and> (s = pre @ m \<or> s = pre @ m @ [10]))"
    by (rule suffix_search_iff)
next
  show "column_type_length s None = (case suffix_search s of Some m \<Rightarrow> m | None \<Rightarrow> [])"
    by (rule column_type_length_cases)
next
  show "column_type_length s (Some 255)
        = (case suffix_search s of Some m \<Rightarrow> m | None \<Rightarrow> py ''(255)'')"
    by (rule column_type_length_cases)
next
  show "valid_column_type s = Some t \<longleftrightarrow>
        t \<noteq> [] \<and> cp CHR ''('' \<notin> set t \<and> (strip s = t \<or> (\<exists>r. strip s = t @ cp CHR ''('' # r))"
    by (rule valid_column_type_Some)
next
  show "\<forall>x\<in>set (upper s). \<not> (97 \<le> x \<and> x \<le> 122)"
    using upper_no_lower by blast
next
  assume "\<forall>c\<in>set s. c < 128"
  then show "upper s = map (\<lambda>c. if 97 \<le> c \<and> c \<le> 122 then c - 32 else c) s"
    by (rule upper_ascii)
next
  assume "valid_column_type s = Some t"
    and "upper t \<notin> set [py ''TEXT'', py ''CLOB'', py ''CHARACTER'', py ''NCHAR'',
             py ''NATIVE CHARACTER'', py ''VARYING CHARACTER'', py ''NVARCHAR'', py ''VARCHAR'',
             py ''DOUBLE PRECISION'', py ''UNSIGNED BIG INT'', py ''INT1'', py ''INT2'']"
  then show "translate_type_from_sqlite_to_mysql s = Inr (upper s)"
    by (rule translate_unclassified)
next
  assume "valid_column_type s = Some t" and "upper t \<in> set [py ''TEXT'', py ''CLOB'']"
  then show "translate_type_from_sqlite_to_mysql s = Inr (py ''TEXT'')"
    by (rule translate_text_family)
next
  assume v: "valid_column_type s = Some t"
    and c: "upper t \<in> set [py ''CHARACTER'', py ''NCHAR'', py ''NATIVE CHARACTER'']"
  show "translate_type_from_sqlite_to_mysql s
          = Inr (py ''CHAR'' @ (case suffix_search s of Some m \<Rightarrow> m | None \<Rightarrow> []))"
    using translate_char_family[OF v c] by (simp only: column_type_length_cases)
next
  assume v: "valid_column_type s = Some t"
    and c: "upper t \<in> set [py ''VARYING CHARACTER'', py ''NVARCHAR'', py ''VARCHAR'']"
  show "translate_type_from_sqlite_to_mysql s
          = Inr (py ''VARCHAR'' @ (case suffix_search s of Some m \<Rightarrow> m | None \<Rightarrow> py ''(255)''))"
    using translate_varchar_family[OF v c] by (simp only: column_type_length_cases)
next
  assume "valid_column_type s = Some t" and "upper t = py ''DOUBLE PRECISION''"
  then show "translate_type_from_sqlite_to_mysql s = Inr (py ''DOUBLE'')"
    by (rule translate_double_precision)
next
  assume v: "valid_column_type s = Some t" and c: "upper t = py ''UNSIGNED BIG INT''"
  show "translate_type_from_sqlite_to_mysql s
          = Inr (py ''BIGINT'' @ (case suffix_search s of Some m \<Rightarrow> m | None \<Rightarrow> [])
                 @ py '' UNSIGNED'')"
    using translate_unsigned_big_int[OF v c] by (simp only: column_type_length_cases)
next
  assume "valid_column_type s = Some t" and "upper t \<in> set [py ''INT1'', py ''INT2'']"
  then show "translate_type_from_sqlite_to_mysql s = Inr (py ''INT'')"
    by (rule translate_int_family)
qed

theorem length_suffix_rule_witness:
  "column_type_length (py ''nvarchar(50)'') None = py ''(50)''
   \<and> translate_type_from_sqlite_to_mysql (py ''nvarchar(50)'') = Inr (py ''VARCHAR(50)'')
   \<and> translate_type_from_sqlite_to_mysql (py ''decimal(10,2)'') = Inr (py ''DECIMAL(10,2)'')
   \<and> translate_type_from_sqlite_to_mysql (py ''character(10,2)'') = Inr (py ''CHAR'')
   \<and> translate_type_from_sqlite_to_mysql (py ''varchar(10,2)'') = Inr (py ''VARCHAR(255)'')
   \<and> translate_type_from_sqlite_to_mysql (py ''Unsigned Big Int(1,2)'')
         = Inr (py ''BIGINT UNSIGNED'')
   \<and> translate_type_from_sqlite_to_mysql (py ''text(10,2)'') = Inr (py ''TEXT'')
   \<and> translate_type_from_sqlite_to_mysql (py ''double precision(5)'') = Inr (py ''DOUBLE'')
   \<and> translate_type_from_sqlite_to_mysql (py ''int1(3,4)'') = Inr (py ''INT'')"
proof -
  note rule = length_suffix_rule [THEN conjunct2, THEN conjunct2, THEN conjunct2, THEN conjunct2,
      THEN conjunct2, THEN conjunct2, THEN mp]
  have 1: "column_type_length (py ''nvarchar(50)'') None = py ''(50)''"
  proof -
    have a: "suffix_search (py ''nvarchar(50)'') = Some (py ''(50)'')" by code_simp
    show ?thesis
      using length_suffix_rule [where s = "py ''nvarchar(50)''", THEN conjunct2, THEN conjunct1]
      by (simp add: a)
  qed
  have 2: "translate_type_from_sqlite_to_mysql (py ''nvarchar(50)'') = Inr (py ''VARCHAR(50)'')"
  proof -
    have v: "valid_column_type (py ''nvarchar(50)'') = Some (py ''nvarchar'')" by code_simp
    have f: "upper (py ''nvarchar'')
               \<in> set [py ''VARYING CHARACTER'', py ''NVARCHAR'', py ''VARCHAR'']" by code_simp
    have a: "suffix_search (py ''nvarchar(50)'') = Some (py ''(50)'')" by code_simp
    have e: "py ''VARCHAR'' @ py ''(50)'' = py ''VARCHAR(50)''" by (simp add: py_def)
    show ?thesis
      using rule [OF v, THEN conjunct2, THEN conjunct2, THEN conjunct2, THEN conjunct1, THEN mp,
          OF f]
      by (simp add: a e)
  qed
  have 3: "translate_type_from_sqlite_to_mysql (py ''decimal(10,2)'') = Inr (py ''DECIMAL(10,2)'')"
  proof -
    have v: "valid_column_type (py ''decimal(10,2)'') = Some (py ''decimal'')" by code_simp
    have f: "upper (py ''decimal'')
               \<notin> set [py ''TEXT'', py ''CLOB'', py ''CHARACTER'', py ''NCHAR'',
             py ''NATIVE CHARACTER'', py ''VARYING CHARACTER'', py ''NVARCHAR'', py ''VARCHAR'',
             py ''DOUBLE PRECISION'', py ''UNSIGNED BIG INT'', py ''INT1'', py ''INT2'']"
      by code_simp
    have u: "upper (py ''decimal(10,2)'') = py ''DECIMAL(10,2)''" by code_simp
    show ?thesis
      using rule [OF v, THEN conjunct1, THEN mp, OF f] by (simp add: u)
  qed
  have 4: "translate_type_from_sqlite_to_mysql (py ''character(10,2)'') = Inr (py ''CHAR'')"
  proof -
    have v: "valid_column_type (py ''character(10,2)'') = Some (py ''character'')" by code_simp
    have f: "upper (py ''character'')
               \<in> set [py ''CHARACTER'', py ''NCHAR'', py ''NATIVE CHARACTER'']" by code_simp
    have a: "suffix_search (py ''character(10,2)'') = None" by code_simp
    show ?thesis
      using rule [OF v, THEN conjunct2, THEN conjunct2, THEN conjunct1, THEN mp, OF f]
      by (simp add: a)
  qed
  have 5: "translate_type_from_sqlite_to_mysql (py ''varchar(10,2)'') = Inr (py ''VARCHAR(255)'')"
  proof -
    have v: "valid_column_type (py ''varchar(10,2)'') = Some (py ''varchar'')" by code_simp
    have f: "upper (py ''varchar'')
               \<in> set [py ''VARYING CHARACTER'', py ''NVARCHAR'', py ''VARCHAR'']" by code_simp
    have a: "suffix_search (py ''varchar(10,2)'') = None" by code_simp
    have e: "py ''VARCHAR'' @ py ''(255)'' = py ''VARCHAR(255)''" by (simp add: py_def)
    show ?thesis
      using rule [OF v, THEN conjunct2, THEN conjunct2, THEN conjunct2, THEN conjunct1, THEN mp,
          OF f]
      by (simp add: a e)
  qed
  have 6: "translate_type_from_sqlite_to_mysql (py ''Unsigned Big Int(1,2)'')
         = Inr (py ''BIGINT UNSIGNED'')"
  proof -
    have v: "valid_column_type (py ''Unsigned Big Int(1,2)'') = Some (py ''Unsigned Big Int'')"
      by code_simp
    have f: "upper (py ''Unsigned Big Int'') = py ''UNSIGNED BIG INT''" by code_simp
    have a: "suffix_search (py ''Unsigned Big Int(1,2)'') = None" by code_simp
    have e: "py ''BIGINT'' @ py '' UNSIGNED'' = py ''BIGINT UNSIGNED''" by (simp add: py_def)
    show ?thesis
      using rule [OF v, THEN conjunct2, THEN conjunct2, THEN conjunct2, THEN conjunct2,
          THEN conjunct2, THEN conjunct1, THEN mp, OF f]
      by (simp add: a e)
  qed
  have 7: "translate_type_from_sqlite_to_mysql (py ''text(10,2)'') = Inr (py ''TEXT'')"
  proof -
    have v: "valid_column_type (py ''text(10,2)'') = Some (py ''text'')" by code_simp
    have f: "upper (py ''text'') \<in> set [py ''TEXT'', py ''CLOB'']" by code_simp
    show ?thesis
      using rule [OF v, THEN conjunct2, THEN conjunct1, THEN mp, OF f] .
  qed
  have 8: "translate_type_from_sqlite_to_mysql (py ''double precision(5)'') = Inr (py ''DOUBLE'')"
  proof -
    have v: "valid_column_type (py ''double precision(5)'') = Some (py ''double precision'')"
      by code_simp
    have f: "upper (py ''double precision'') = py ''DOUBLE PRECISION''" by code_simp
    show ?thesis
      using rule [OF v, THEN conjunct2, THEN conjunct2, THEN conjunct2, THEN conjunct2,
          THEN conjunct1, THEN mp, OF f] .
  qed
  have 9: "translate_type_from_sqlite_to_mysql (py ''int1(3,4)'') = Inr (py ''INT'')"
  proof -
    have v: "valid_column_type (py ''int1(3,4)'') = Some (py ''int1'')" by code_simp
    have f: "upper (py ''int1'') \<in> set [py ''INT1'', py ''INT2'']" by code_simp
    show ?thesis
      using rule [OF v, THEN conjunct2, THEN conjunct2, THEN conjunct2, THEN conjunct2,
          THEN conjunct2, THEN conjunct2, THEN mp, OF f] .
  qed
  from 1 2 3 4 5 6 7 8 9 show ?thesis by blast
qed

text \<open>
  The claim C5 as stated, with "only when the input ends with \<open>(digits)\<close>", fails on an
  input that ends with a line feed: \<open>$\<close> also matches just before a final line feed, so
  the suffix \<open>(10)\<close> is copied although the input does not end with a closing parenthesis.
\<close>

theorem length_suffix_trailing_newline:
  "column_type_length (py ''VARCHAR(10)'' @ [10]) None = py ''(10)''
   \<and> translate_type_from_sqlite_to_mysql (py ''VARCHAR(10)'' @ [10]) = Inr (py ''VARCHAR(10)'')
   \<and> last (py ''VARCHAR(10)'' @ [10]) \<noteq> cp CHR '')''"
  by code_simp

end
